theory Spec2Isabelle
  imports Main
begin

chapter \<open>The pruning tool\<close>

section \<open>The declaration tree\<close>

text \<open>
  The pruning tool (\<^verbatim>\<open>pruneDts\<close> and its helpers) rewrites the syntax tree of a
  \<^verbatim>\<open>.d.ts\<close> file. The tree and the type checker belong to the TypeScript compiler
  API; the part of them the tool reads is modelled here: declarations with their
  modifiers, heritage clauses and members, and the types of their signatures. Type
  parameters, decorator expressions and bodies are left out (a declaration file has no
  bodies). An identifier is its \<^verbatim>\<open>escapedText\<close>. An entity name is a plain identifier
  or a qualified name (\<^verbatim>\<open>ns.Foo\<close>); the expression of a heritage type has the same
  two shapes (identifier, property access) and shares the type. A type node is a type
  reference, or any other type with the types it is built from.
\<close>

datatype entity_name =
    Identifier string
  | QualifiedName entity_name string

datatype type_node =
    TypeReferenceNode entity_name "type_node list"
  | OtherTypeNode string "type_node list"

datatype jsdoc_tag = JSDocTag (tagName: string) (tagComment: "string option")

datatype modifier =
    ExportKeyword | DeclareKeyword | DefaultKeyword | PrivateKeyword | ProtectedKeyword
  | PublicKeyword | StaticKeyword | ReadonlyKeyword | AbstractKeyword

datatype property_name = IdentifierName string | LiteralName string

datatype parameter = Parameter string "type_node option"

datatype expression_with_type_arguments =
  ExpressionWithTypeArguments (expression: entity_name) (typeArguments: "type_node list")

datatype heritage_token = ExtendsKeyword | ImplementsKeyword

datatype heritage_clause =
  HeritageClause (token: heritage_token) (types: "expression_with_type_arguments list")

datatype constructor_declaration =
  ConstructorDeclaration
    (ctor_decorators: "string list")
    (ctor_modifiers: "modifier list")
    (ctor_jsDocTags: "jsdoc_tag list")
    (ctor_parameters: "parameter list")
    (ctor_body: "string option")

text \<open>
  Members of classes and interfaces. Class members are declarations and accessors,
  interface members are signatures; \<open>JSDocComment\<close> is the comment node the tool puts in
  front of a copied member, and \<open>NotEmittedMember\<close> is
  \<^verbatim>\<open>factory.createNotEmittedStatement(node)\<close> standing where a member was.
\<close>

datatype member =
    Constructor constructor_declaration
  | PropertyDeclaration "modifier list" property_name "type_node option"
  | MethodDeclaration "modifier list" property_name "parameter list" "type_node option"
  | GetAccessor "modifier list" property_name "type_node option"
  | SetAccessor "modifier list" property_name "parameter list"
  | PropertySignature "modifier list" property_name "type_node option"
  | MethodSignature property_name "parameter list" "type_node option"
  | JSDocComment string "jsdoc_tag list"
  | NotEmittedMember member

datatype statement =
    ClassDeclaration "modifier list" "string option" "heritage_clause list" "member list"
  | InterfaceDeclaration "modifier list" string "heritage_clause list" "member list"
  | FunctionDeclaration "modifier list" "string option" "parameter list" "type_node option"
  | VariableStatement "modifier list" "(string \<times> type_node option) list"
  | TypeAliasDeclaration "modifier list" string type_node
  | ModuleDeclaration "modifier list" string "statement list"
  | EnumDeclaration "modifier list" string "string list"
  | OtherStatement string
  | NotEmittedStatement statement

type_synonym source_file = "statement list"

section \<open>Symbols and the type checker\<close>

text \<open>
  What the tool asks of the type checker. A declaration of a symbol is read for the
  file it stands in, for being an import specifier, for the heritage clauses of a class
  or an interface, and for its JSDoc tags. A symbol has one name (\<^verbatim>\<open>name\<close> and
  \<^verbatim>\<open>escapedName\<close> agree), its declarations (which may be missing), the parts of its
  documentation comment, and \<open>sym_memberNodes\<close>: the class elements TypeScript's
  \<^verbatim>\<open>codefix\<close> builds for it when it is a property of a type (one per overload of a
  method). The checker resolves a name to a symbol (\<^verbatim>\<open>getSymbolAtLocation\<close>; names
  with the same text resolve alike), lists the exports of the module of the file
  (\<^verbatim>\<open>getExportsOfModule\<close>) and the properties of the type of a heritage type
  (\<^verbatim>\<open>getTypeAtLocation(type).getProperties()\<close>).
\<close>

datatype declaration_kind =
    ClassDecl "heritage_clause list"
  | InterfaceDecl "heritage_clause list"
  | ImportSpecifier
  | OtherDecl

record symbol_declaration =
  decl_fileName :: string
  decl_kind :: declaration_kind
  decl_jsDocTags :: "jsdoc_tag list"

datatype display_part = DisplayPart (part_kind: string) (part_text: string)

record symbol =
  sym_name :: string
  sym_declarations :: "symbol_declaration list option"
  sym_documentationComment :: "display_part list"
  sym_memberNodes :: "member list"

record type_checker =
  getSymbolAtLocation :: "entity_name \<Rightarrow> symbol option"
  getExportsOfModule :: "symbol list"
  getProperties :: "expression_with_type_arguments \<Rightarrow> symbol list"

text \<open>The errors a run can end with: the one \<^verbatim>\<open>prunePrivateImports\<close> throws, and the
  \<^verbatim>\<open>TypeError\<close> of reading a property of \<^verbatim>\<open>undefined\<close>.\<close>

datatype error = OnlyClassesOrInterfaces | TypeError

section \<open>Strings\<close>

definition startsWith :: "string \<Rightarrow> string \<Rightarrow> bool" where
  "startsWith s p = (take (length p) s = p)"

text \<open>\<^verbatim>\<open>s.indexOf(p) != -1\<close>\<close>

fun str_includes :: "string \<Rightarrow> string \<Rightarrow> bool" where
  "str_includes [] p = (p = [])"
| "str_includes (c # cs) p = (startsWith (c # cs) p \<or> str_includes cs p)"

text \<open>\<^verbatim>\<open>s.trim()\<close>, on the white space characters of ASCII.\<close>

definition isWhiteSpace :: "char \<Rightarrow> bool" where
  "isWhiteSpace c = (c \<in> set [CHR '' '', CHR 0x09, CHR 0x0A, CHR 0x0B, CHR 0x0C, CHR 0x0D])"

definition trim :: "string \<Rightarrow> string" where
  "trim s = rev (dropWhile isWhiteSpace (rev (dropWhile isWhiteSpace s)))"

text \<open>\<^verbatim>\<open>s.replace(pat, rep)\<close> with a string pattern: the first occurrence only.\<close>

fun replaceFirst :: "string \<Rightarrow> string \<Rightarrow> string \<Rightarrow> string" where
  "replaceFirst [] pat rep = (if pat = [] then rep else [])"
| "replaceFirst (c # cs) pat rep =
     (if startsWith (c # cs) pat then rep @ drop (length pat) (c # cs)
      else c # replaceFirst cs pat rep)"

section \<open>Hidden names, exports and constructors\<close>

text \<open>\<^verbatim>\<open>!!name.escapedText?.toString().startsWith('_')\<close>: a name that is not an identifier
  has no \<^verbatim>\<open>escapedText\<close>.\<close>

fun hasPrivatePrefix :: "property_name \<Rightarrow> bool" where
  "hasPrivatePrefix (IdentifierName t) = startsWith t ''_''"
| "hasPrivatePrefix (LiteralName t) = False"

definition declarationsAt :: "type_checker \<Rightarrow> entity_name \<Rightarrow> symbol_declaration list" where
  "declarationsAt tc n =
     (case getSymbolAtLocation tc n of
        None \<Rightarrow> []
      | Some s \<Rightarrow> (case sym_declarations s of None \<Rightarrow> [] | Some ds \<Rightarrow> ds))"

definition isExported :: "type_checker \<Rightarrow> string \<Rightarrow> bool" where
  "isExported tc n =
     (let declarations = declarationsAt tc (Identifier n);
          isTypescriptType =
            find (\<lambda>d. str_includes (decl_fileName d) ''typescript/lib'') declarations;
          isImported = find (\<lambda>d. decl_kind d = ImportSpecifier) declarations
      in if isTypescriptType \<noteq> None \<or> isImported \<noteq> None then True
         else find (\<lambda>s. sym_name s = n) (getExportsOfModule tc) \<noteq> None)"

definition hideConstructorTag :: "constructor_declaration \<Rightarrow> jsdoc_tag option" where
  "hideConstructorTag node = find (\<lambda>t. tagName t = ''hideconstructor'') (ctor_jsDocTags node)"

definition maybeHideConstructor :: "constructor_declaration \<Rightarrow> constructor_declaration" where
  "maybeHideConstructor node =
     (case hideConstructorTag node of
        Some tag \<Rightarrow>
          ConstructorDeclaration (ctor_decorators node)
            [if tagComment tag = Some ''protected'' then ProtectedKeyword else PrivateKeyword]
            [] [] None
      | None \<Rightarrow> node)"

section \<open>Copying the members of a hidden supertype\<close>

text \<open>
  \<^verbatim>\<open>(node.name as ts.Identifier).escapedText\<close>: a node with no \<^verbatim>\<open>name\<close> makes the
  property read fail (a \<^verbatim>\<open>TypeError\<close>); a name that is not an identifier has no
  \<^verbatim>\<open>escapedText\<close>.
\<close>

fun escapedTextOf :: "property_name \<Rightarrow> string option" where
  "escapedTextOf (IdentifierName t) = Some t"
| "escapedTextOf (LiteralName t) = None"

fun nameEscapedText :: "member \<Rightarrow> error + string option" where
  "nameEscapedText (PropertyDeclaration ms n ty) = Inr (escapedTextOf n)"
| "nameEscapedText (MethodDeclaration ms n ps ty) = Inr (escapedTextOf n)"
| "nameEscapedText (GetAccessor ms n ty) = Inr (escapedTextOf n)"
| "nameEscapedText (SetAccessor ms n ps) = Inr (escapedTextOf n)"
| "nameEscapedText (PropertySignature ms n ty) = Inr (escapedTextOf n)"
| "nameEscapedText (MethodSignature n ps ty) = Inr (escapedTextOf n)"
| "nameEscapedText (Constructor c) = Inl TypeError"
| "nameEscapedText (JSDocComment t tags) = Inl TypeError"
| "nameEscapedText (NotEmittedMember m) = Inl TypeError"

fun isClassElement :: "member \<Rightarrow> bool" where
  "isClassElement (Constructor c) = True"
| "isClassElement (PropertyDeclaration ms n ty) = True"
| "isClassElement (MethodDeclaration ms n ps ty) = True"
| "isClassElement (GetAccessor ms n ty) = True"
| "isClassElement (SetAccessor ms n ps) = True"
| "isClassElement (PropertySignature ms n ty) = False"
| "isClassElement (MethodSignature n ps ty) = False"
| "isClassElement (JSDocComment t tags) = False"
| "isClassElement (NotEmittedMember m) = False"

text \<open>The length of
  \<^verbatim>\<open>alreadyAddedMembers.filter(node => ts.isClassElement(node) && node.name.escapedText == symbol.name)\<close>.\<close>

fun overloadCount :: "string \<Rightarrow> member list \<Rightarrow> error + nat" where
  "overloadCount nm [] = Inr 0"
| "overloadCount nm (node # nodes) =
     (if isClassElement node then
        (case nameEscapedText node of
           Inl e \<Rightarrow> Inl e
         | Inr t \<Rightarrow>
             (case overloadCount nm nodes of
                Inl e \<Rightarrow> Inl e
              | Inr k \<Rightarrow> Inr (if t = Some nm then Suc k else k)))
      else overloadCount nm nodes)"

text \<open>The filter over the documentation parts, with its counter \<^verbatim>\<open>targetIndex\<close>.\<close>

fun filterComments :: "nat \<Rightarrow> nat \<Rightarrow> display_part list \<Rightarrow> display_part list" where
  "filterComments oc targetIndex [] = []"
| "filterComments oc targetIndex (p # ps) =
     (if part_kind p = ''lineBreak'' then filterComments oc (Suc targetIndex) ps
      else if oc = targetIndex then p # filterComments oc targetIndex ps
      else filterComments oc targetIndex ps)"

definition formatComments :: "display_part list \<Rightarrow> string" where
  "formatComments comments =
     (let joinedComments =
            concat (map (\<lambda>c. if part_kind c = ''linkText'' then trim (part_text c)
                              else part_text c) comments)
      in replaceFirst
           (replaceFirst (replaceFirst joinedComments ''*'' [CHR 0x0A])
              [CHR '' '', CHR 0x0A] [CHR 0x0A])
           [CHR 0x0A, CHR '' ''] [CHR 0x0A])"

text \<open>\<^verbatim>\<open>ts.getJSDocTags(symbol.declarations[overloadCount])\<close>: past the end of the list the
  argument is \<^verbatim>\<open>undefined\<close> and the call fails.\<close>

definition extractJSDocComment :: "symbol \<Rightarrow> member list \<Rightarrow> error + member option" where
  "extractJSDocComment symbol alreadyAddedMembers =
     (case overloadCount (sym_name symbol) alreadyAddedMembers of
        Inl e \<Rightarrow> Inl e
      | Inr oc \<Rightarrow>
          (let comments = filterComments oc 0 (sym_documentationComment symbol) in
           case sym_declarations symbol of
             None \<Rightarrow> Inr None
           | Some ds \<Rightarrow>
               if length comments > 0 then
                 (if oc < length ds then
                    (let jsDocTags = decl_jsDocTags (ds ! oc);
                         maybeNewline = (if length jsDocTags > 0 then [CHR 0x0A] else [])
                     in Inr (Some (JSDocComment (formatComments comments @ maybeNewline)
                                     jsDocTags)))
                  else Inl TypeError)
               else Inr None))"

text \<open>The names in a class's or interface's own member table.\<close>

fun memberSymbolName :: "member \<Rightarrow> string option" where
  "memberSymbolName (Constructor c) = Some ''__constructor''"
| "memberSymbolName (PropertyDeclaration ms (IdentifierName t) ty) = Some t"
| "memberSymbolName (PropertyDeclaration ms (LiteralName t) ty) = Some t"
| "memberSymbolName (MethodDeclaration ms (IdentifierName t) ps ty) = Some t"
| "memberSymbolName (MethodDeclaration ms (LiteralName t) ps ty) = Some t"
| "memberSymbolName (GetAccessor ms (IdentifierName t) ty) = Some t"
| "memberSymbolName (GetAccessor ms (LiteralName t) ty) = Some t"
| "memberSymbolName (SetAccessor ms (IdentifierName t) ps) = Some t"
| "memberSymbolName (SetAccessor ms (LiteralName t) ps) = Some t"
| "memberSymbolName (PropertySignature ms (IdentifierName t) ty) = Some t"
| "memberSymbolName (PropertySignature ms (LiteralName t) ty) = Some t"
| "memberSymbolName (MethodSignature (IdentifierName t) ps ty) = Some t"
| "memberSymbolName (MethodSignature (LiteralName t) ps ty) = Some t"
| "memberSymbolName (JSDocComment t tags) = None"
| "memberSymbolName (NotEmittedMember m) = None"

fun membersOf :: "statement \<Rightarrow> member list" where
  "membersOf (ClassDeclaration mods nm hcs members) = members"
| "membersOf (InterfaceDeclaration mods nm hcs members) = members"
| "membersOf s = []"

definition classMembers :: "statement \<Rightarrow> string list" where
  "classMembers currentClass = List.map_filter memberSymbolName (membersOf currentClass)"

text \<open>
  Modelled from the spec: \<^verbatim>\<open>codefix.createMissingMemberNodes\<close> is a private helper of the
  TypeScript compiler, not a file of this repository. The spec (4.3): for every member
  on the hidden supertype whose name is not already present on the subtype (case
  sensitive), synthesize a new member with the same signature. The value is the list
  of nodes handed to the callback, in order.
\<close>

definition createMissingMemberNodes :: "statement \<Rightarrow> symbol list \<Rightarrow> member list" where
  "createMissingMemberNodes currentClass possiblyMissingSymbols =
     concat (map sym_memberNodes
       (filter (\<lambda>symbol. sym_name symbol \<notin> set (classMembers currentClass))
          possiblyMissingSymbols))"

text \<open>The callback of \<^verbatim>\<open>convertPropertiesForEnclosingClass\<close>, run over the missing
  members; \<open>newMembers\<close> is the array it pushes to.\<close>

fun addClassElements :: "symbol list \<Rightarrow> member list \<Rightarrow> member list \<Rightarrow> error + member list" where
  "addClassElements parentClassSymbols newMembers [] = Inr newMembers"
| "addClassElements parentClassSymbols newMembers (missingMember # rest) =
     (case nameEscapedText missingMember of
        Inl e \<Rightarrow> Inl e
      | Inr nm \<Rightarrow>
          (case (case find (\<lambda>symbol. Some (sym_name symbol) = nm) parentClassSymbols of
                   None \<Rightarrow> Inr None
                 | Some originalSymbol \<Rightarrow> extractJSDocComment originalSymbol newMembers) of
             Inl e \<Rightarrow> Inl e
           | Inr (Some jsDocComment) \<Rightarrow>
               addClassElements parentClassSymbols
                 (newMembers @ [jsDocComment, missingMember]) rest
           | Inr None \<Rightarrow>
               addClassElements parentClassSymbols (newMembers @ [missingMember]) rest))"

definition convertPropertiesForEnclosingClass ::
  "symbol list \<Rightarrow> statement \<Rightarrow> error + member list" where
  "convertPropertiesForEnclosingClass parentClassSymbols currentClass =
     addClassElements parentClassSymbols []
       (createMissingMemberNodes currentClass parentClassSymbols)"

section \<open>Pruning heritage clauses\<close>

text \<open>\<^verbatim>\<open>ts.isIdentifier(type.expression) && isExported(typeChecker, sourceFile, type.expression)\<close>\<close>

fun isExportedIdentifier :: "type_checker \<Rightarrow> entity_name \<Rightarrow> bool" where
  "isExportedIdentifier tc (Identifier n) = isExported tc n"
| "isExportedIdentifier tc (QualifiedName q r) = False"

text \<open>The inner loop over \<^verbatim>\<open>heritageClause.types\<close>, with the arrays \<open>exportedTypes\<close> and
  \<open>additionalMembers\<close> it pushes to.\<close>

fun pruneTypes ::
  "type_checker \<Rightarrow> statement \<Rightarrow> expression_with_type_arguments list \<Rightarrow>
   expression_with_type_arguments list \<Rightarrow> member list \<Rightarrow>
   error + (expression_with_type_arguments list \<times> member list)" where
  "pruneTypes tc node [] exportedTypes additionalMembers =
     Inr (exportedTypes, additionalMembers)"
| "pruneTypes tc node (ty # rest) exportedTypes additionalMembers =
     (if isExportedIdentifier tc (expression ty) then
        pruneTypes tc node rest (exportedTypes @ [ty]) additionalMembers
      else
        (case convertPropertiesForEnclosingClass (getProperties tc ty) node of
           Inl e \<Rightarrow> Inl e
         | Inr newMembers \<Rightarrow>
             pruneTypes tc node rest exportedTypes (additionalMembers @ newMembers)))"

text \<open>The outer loop over \<^verbatim>\<open>node.heritageClauses || []\<close>.\<close>

fun pruneClauses ::
  "type_checker \<Rightarrow> statement \<Rightarrow> heritage_clause list \<Rightarrow> heritage_clause list \<Rightarrow>
   member list \<Rightarrow> error + (heritage_clause list \<times> member list)" where
  "pruneClauses tc node [] prunedHeritageClauses additionalMembers =
     Inr (prunedHeritageClauses, additionalMembers)"
| "pruneClauses tc node (heritageClause # rest) prunedHeritageClauses additionalMembers =
     (case pruneTypes tc node (types heritageClause) [] additionalMembers of
        Inl e \<Rightarrow> Inl e
      | Inr (exportedTypes, additionalMembers') \<Rightarrow>
          pruneClauses tc node rest
            (if length exportedTypes > 0
             then prunedHeritageClauses @ [HeritageClause (token heritageClause) exportedTypes]
             else prunedHeritageClauses)
            additionalMembers')"

fun heritageClausesOf :: "statement \<Rightarrow> heritage_clause list" where
  "heritageClausesOf (ClassDeclaration mods nm hcs members) = hcs"
| "heritageClausesOf (InterfaceDeclaration mods nm hcs members) = hcs"
| "heritageClausesOf s = []"

definition prunePrivateImports :: "type_checker \<Rightarrow> statement \<Rightarrow> error + statement" where
  "prunePrivateImports tc node =
     (case pruneClauses tc node (heritageClausesOf node) [] [] of
        Inl e \<Rightarrow> Inl e
      | Inr (prunedHeritageClauses, additionalMembers) \<Rightarrow>
          (case node of
             ClassDeclaration mods nm hcs members \<Rightarrow>
               Inr (ClassDeclaration mods nm prunedHeritageClauses
                      (members @ additionalMembers))
           | InterfaceDeclaration mods nm hcs members \<Rightarrow>
               Inr (InterfaceDeclaration mods nm prunedHeritageClauses
                      (members @ additionalMembers))
           | _ \<Rightarrow> Inl OnlyClassesOrInterfaces))"

section \<open>The substitute search\<close>

text \<open>The first loop of \<^verbatim>\<open>extractExportedSymbol\<close>: the exported symbol of the same name.\<close>

fun sameNameLoop :: "string \<Rightarrow> symbol list \<Rightarrow> symbol option" where
  "sameNameLoop localSymbolName [] = None"
| "sameNameLoop localSymbolName (symbol # rest) =
     (if sym_name symbol = localSymbolName then Some symbol
      else sameNameLoop localSymbolName rest)"

text \<open>
  The second loop nest: over the exported symbols, their declarations, the heritage
  clauses of those that are classes or interfaces, and the types of a clause. The three
  inner loops say whether the \<^verbatim>\<open>return symbol\<close> is reached.
\<close>

fun typesName :: "string \<Rightarrow> expression_with_type_arguments list \<Rightarrow> bool" where
  "typesName localSymbolName [] = False"
| "typesName localSymbolName (ty # rest) =
     (case expression ty of
        Identifier subclassName \<Rightarrow>
          if subclassName = localSymbolName then True else typesName localSymbolName rest
      | QualifiedName q r \<Rightarrow> typesName localSymbolName rest)"

fun clausesName :: "string \<Rightarrow> heritage_clause list \<Rightarrow> bool" where
  "clausesName localSymbolName [] = False"
| "clausesName localSymbolName (heritageClause # rest) =
     (if typesName localSymbolName (types heritageClause) then True
      else clausesName localSymbolName rest)"

fun declarationsName :: "string \<Rightarrow> symbol_declaration list \<Rightarrow> bool" where
  "declarationsName localSymbolName [] = False"
| "declarationsName localSymbolName (d # rest) =
     (case decl_kind d of
        ClassDecl hcs \<Rightarrow>
          if clausesName localSymbolName hcs then True
          else declarationsName localSymbolName rest
      | InterfaceDecl hcs \<Rightarrow>
          if clausesName localSymbolName hcs then True
          else declarationsName localSymbolName rest
      | ImportSpecifier \<Rightarrow> declarationsName localSymbolName rest
      | OtherDecl \<Rightarrow> declarationsName localSymbolName rest)"

fun subclassLoop :: "string \<Rightarrow> symbol list \<Rightarrow> symbol option" where
  "subclassLoop localSymbolName [] = None"
| "subclassLoop localSymbolName (symbol # rest) =
     (case sym_declarations symbol of
        None \<Rightarrow> subclassLoop localSymbolName rest
      | Some ds \<Rightarrow>
          if declarationsName localSymbolName ds then Some symbol
          else subclassLoop localSymbolName rest)"

text \<open>
  The third loop nest, over the declarations of the local symbol. Its \<^verbatim>\<open>return\<close> hands
  back what \<^verbatim>\<open>getSymbolAtLocation\<close> gives, which may be \<^verbatim>\<open>undefined\<close>: the outer
  option says whether the \<^verbatim>\<open>return\<close> was reached, the inner one is the value returned.
\<close>

fun typesExported ::
  "type_checker \<Rightarrow> expression_with_type_arguments list \<Rightarrow> symbol option option" where
  "typesExported tc [] = None"
| "typesExported tc (ty # rest) =
     (case expression ty of
        Identifier e \<Rightarrow>
          if isExported tc e then Some (getSymbolAtLocation tc (Identifier e))
          else typesExported tc rest
      | QualifiedName q r \<Rightarrow> typesExported tc rest)"

fun clausesExported :: "type_checker \<Rightarrow> heritage_clause list \<Rightarrow> symbol option option" where
  "clausesExported tc [] = None"
| "clausesExported tc (heritageClause # rest) =
     (case typesExported tc (types heritageClause) of
        Some r \<Rightarrow> Some r
      | None \<Rightarrow> clausesExported tc rest)"

fun declarationsExported ::
  "type_checker \<Rightarrow> symbol_declaration list \<Rightarrow> symbol option option" where
  "declarationsExported tc [] = None"
| "declarationsExported tc (d # rest) =
     (case decl_kind d of
        ClassDecl hcs \<Rightarrow>
          (case clausesExported tc hcs of
             Some r \<Rightarrow> Some r
           | None \<Rightarrow> declarationsExported tc rest)
      | InterfaceDecl hcs \<Rightarrow>
          (case clausesExported tc hcs of
             Some r \<Rightarrow> Some r
           | None \<Rightarrow> declarationsExported tc rest)
      | ImportSpecifier \<Rightarrow> declarationsExported tc rest
      | OtherDecl \<Rightarrow> declarationsExported tc rest)"

fun extractExportedSymbol :: "type_checker \<Rightarrow> entity_name \<Rightarrow> symbol option" where
  "extractExportedSymbol tc (QualifiedName q r) = None"
| "extractExportedSymbol tc (Identifier localSymbolName) =
     (if isExported tc localSymbolName then None
      else
        (case sameNameLoop localSymbolName (getExportsOfModule tc) of
           Some symbol \<Rightarrow> Some symbol
         | None \<Rightarrow>
             (case subclassLoop localSymbolName (getExportsOfModule tc) of
                Some symbol \<Rightarrow> Some symbol
              | None \<Rightarrow>
                  (case getSymbolAtLocation tc (Identifier localSymbolName) of
                     None \<Rightarrow> None
                   | Some localSymbol \<Rightarrow>
                       (case sym_declarations localSymbol of
                          None \<Rightarrow> None
                        | Some ds \<Rightarrow>
                            (case declarationsExported tc ds of
                               Some r \<Rightarrow> r
                             | None \<Rightarrow> None))))))"

section \<open>The transformer\<close>

text \<open>
  \<^verbatim>\<open>visit\<close> is one function over all nodes; here it is split by the kind of node it
  is applied to (type nodes, members, statements), each part keeping the branches of the
  source that can match there. \<^verbatim>\<open>visitNodeAndChildren\<close> applies \<^verbatim>\<open>visit\<close> to a node and then
  itself to every child of the result (\<^verbatim>\<open>ts.visitEachChild\<close>).
\<close>

fun visit_type :: "type_checker \<Rightarrow> type_node \<Rightarrow> type_node" where
  "visit_type tc (TypeReferenceNode typeName typeArgs) =
     (case extractExportedSymbol tc typeName of
        Some publicName \<Rightarrow> TypeReferenceNode (Identifier (sym_name publicName)) typeArgs
      | None \<Rightarrow> TypeReferenceNode typeName typeArgs)"
| "visit_type tc (OtherTypeNode k ts) = OtherTypeNode k ts"

lemma visit_type_children:
  "visit_type tc node = TypeReferenceNode n args \<Longrightarrow> \<exists>n'. node = TypeReferenceNode n' args"
  "visit_type tc node = OtherTypeNode k ts \<Longrightarrow> node = OtherTypeNode k ts"
  by (cases node; simp split: option.splits)+

function visitNodeAndChildren_type :: "type_checker \<Rightarrow> type_node \<Rightarrow> type_node" where
  "visitNodeAndChildren_type tc node =
     (case visit_type tc node of
        TypeReferenceNode n args \<Rightarrow>
          TypeReferenceNode n (map (visitNodeAndChildren_type tc) args)
      | OtherTypeNode k ts \<Rightarrow> OtherTypeNode k (map (visitNodeAndChildren_type tc) ts))"
  by pat_completeness auto

termination
proof (relation "measure (\<lambda>(tc, node). size node)")
  show "wf (measure (\<lambda>(tc, node). size node))" by simp
next
  fix tc node n args x
  assume "visit_type tc node = TypeReferenceNode n args" and "x \<in> set args"
  then show "((tc, x), (tc, node)) \<in> measure (\<lambda>(tc, node). size node)"
    by (auto dest!: visit_type_children(1) simp: less_Suc_eq_le size_list_estimation')
next
  fix tc node k ts x
  assume "visit_type tc node = OtherTypeNode k ts" and "x \<in> set ts"
  then show "((tc, x), (tc, node)) \<in> measure (\<lambda>(tc, node). size node)"
    by (auto dest!: visit_type_children(2) simp: less_Suc_eq_le size_list_estimation')
qed

declare visitNodeAndChildren_type.simps [simp del]

fun visitParameter :: "type_checker \<Rightarrow> parameter \<Rightarrow> parameter" where
  "visitParameter tc (Parameter n ty) = Parameter n (map_option (visitNodeAndChildren_type tc) ty)"

fun visit_member :: "member \<Rightarrow> member" where
  "visit_member (Constructor c) = Constructor (maybeHideConstructor c)"
| "visit_member (PropertyDeclaration ms n ty) =
     (if hasPrivatePrefix n then NotEmittedMember (PropertyDeclaration ms n ty)
      else PropertyDeclaration ms n ty)"
| "visit_member (MethodDeclaration ms n ps ty) =
     (if hasPrivatePrefix n then NotEmittedMember (MethodDeclaration ms n ps ty)
      else MethodDeclaration ms n ps ty)"
| "visit_member (GetAccessor ms n ty) =
     (if hasPrivatePrefix n then NotEmittedMember (GetAccessor ms n ty)
      else GetAccessor ms n ty)"
| "visit_member (SetAccessor ms n ps) = SetAccessor ms n ps"
| "visit_member (PropertySignature ms n ty) = PropertySignature ms n ty"
| "visit_member (MethodSignature n ps ty) = MethodSignature n ps ty"
| "visit_member (JSDocComment t tags) = JSDocComment t tags"
| "visit_member (NotEmittedMember m) = NotEmittedMember m"

fun visitEachChild_member :: "type_checker \<Rightarrow> member \<Rightarrow> member" where
  "visitEachChild_member tc (Constructor c) =
     Constructor (ConstructorDeclaration (ctor_decorators c) (ctor_modifiers c)
       (ctor_jsDocTags c) (map (visitParameter tc) (ctor_parameters c)) (ctor_body c))"
| "visitEachChild_member tc (PropertyDeclaration ms n ty) =
     PropertyDeclaration ms n (map_option (visitNodeAndChildren_type tc) ty)"
| "visitEachChild_member tc (MethodDeclaration ms n ps ty) =
     MethodDeclaration ms n (map (visitParameter tc) ps)
       (map_option (visitNodeAndChildren_type tc) ty)"
| "visitEachChild_member tc (GetAccessor ms n ty) =
     GetAccessor ms n (map_option (visitNodeAndChildren_type tc) ty)"
| "visitEachChild_member tc (SetAccessor ms n ps) =
     SetAccessor ms n (map (visitParameter tc) ps)"
| "visitEachChild_member tc (PropertySignature ms n ty) =
     PropertySignature ms n (map_option (visitNodeAndChildren_type tc) ty)"
| "visitEachChild_member tc (MethodSignature n ps ty) =
     MethodSignature n (map (visitParameter tc) ps)
       (map_option (visitNodeAndChildren_type tc) ty)"
| "visitEachChild_member tc (JSDocComment t tags) = JSDocComment t tags"
| "visitEachChild_member tc (NotEmittedMember m) = NotEmittedMember m"

definition visitNodeAndChildren_member :: "type_checker \<Rightarrow> member \<Rightarrow> member" where
  "visitNodeAndChildren_member tc node = visitEachChild_member tc (visit_member node)"

text \<open>A heritage clause and its types are returned by \<^verbatim>\<open>visit\<close> as they are (the
  expression of a heritage type is no type reference node); the type arguments are
  visited.\<close>

fun visitNodeAndChildren_heritage :: "type_checker \<Rightarrow> heritage_clause \<Rightarrow> heritage_clause" where
  "visitNodeAndChildren_heritage tc (HeritageClause tok tys) =
     HeritageClause tok
       (map (\<lambda>ty. ExpressionWithTypeArguments (expression ty)
                    (map (visitNodeAndChildren_type tc) (typeArguments ty))) tys)"

definition hasExportModifier :: "modifier list \<Rightarrow> bool" where
  "hasExportModifier modifiers = (find (\<lambda>m. m = ExportKeyword) modifiers \<noteq> None)"

fun visit_statement :: "type_checker \<Rightarrow> statement \<Rightarrow> error + statement" where
  "visit_statement tc (ClassDeclaration mods nm hcs ms) =
     (if \<not> hasExportModifier mods then Inr (NotEmittedStatement (ClassDeclaration mods nm hcs ms))
      else prunePrivateImports tc (ClassDeclaration mods nm hcs ms))"
| "visit_statement tc (InterfaceDeclaration mods nm hcs ms) =
     (if \<not> hasExportModifier mods
      then Inr (NotEmittedStatement (InterfaceDeclaration mods nm hcs ms))
      else prunePrivateImports tc (InterfaceDeclaration mods nm hcs ms))"
| "visit_statement tc (FunctionDeclaration mods nm ps ty) =
     (if \<not> hasExportModifier mods
      then Inr (NotEmittedStatement (FunctionDeclaration mods nm ps ty))
      else Inr (FunctionDeclaration mods nm ps ty))"
| "visit_statement tc (VariableStatement mods ds) =
     (if \<not> hasExportModifier mods then Inr (NotEmittedStatement (VariableStatement mods ds))
      else Inr (VariableStatement mods ds))"
| "visit_statement tc (TypeAliasDeclaration mods nm ty) =
     (if \<not> hasExportModifier mods
      then Inr (NotEmittedStatement (TypeAliasDeclaration mods nm ty))
      else Inr (TypeAliasDeclaration mods nm ty))"
| "visit_statement tc (ModuleDeclaration mods nm body) =
     (if \<not> hasExportModifier mods
      then Inr (NotEmittedStatement (ModuleDeclaration mods nm body))
      else Inr (ModuleDeclaration mods nm body))"
| "visit_statement tc (EnumDeclaration mods nm es) =
     (if \<not> hasExportModifier mods then Inr (NotEmittedStatement (EnumDeclaration mods nm es))
      else Inr (EnumDeclaration mods nm es))"
| "visit_statement tc (OtherStatement t) = Inr (OtherStatement t)"
| "visit_statement tc (NotEmittedStatement s) = Inr (NotEmittedStatement s)"

lemma prunePrivateImports_module:
  "prunePrivateImports tc node \<noteq> Inr (ModuleDeclaration mods nm body)"
  by (auto simp: prunePrivateImports_def split: sum.splits statement.splits prod.splits)

lemma visit_statement_module:
  "visit_statement tc node = Inr (ModuleDeclaration mods nm body) \<Longrightarrow>
   node = ModuleDeclaration mods nm body"
  by (cases node) (auto simp: prunePrivateImports_module split: if_splits)

function visitNodeAndChildren_statement :: "type_checker \<Rightarrow> statement \<Rightarrow> error + statement"
  and visitNodeAndChildren_statements ::
    "type_checker \<Rightarrow> statement list \<Rightarrow> error + statement list" where
  "visitNodeAndChildren_statement tc node =
     (case visit_statement tc node of
        Inl e \<Rightarrow> Inl e
      | Inr (ClassDeclaration mods nm hcs ms) \<Rightarrow>
          Inr (ClassDeclaration mods nm (map (visitNodeAndChildren_heritage tc) hcs)
                 (map (visitNodeAndChildren_member tc) ms))
      | Inr (InterfaceDeclaration mods nm hcs ms) \<Rightarrow>
          Inr (InterfaceDeclaration mods nm (map (visitNodeAndChildren_heritage tc) hcs)
                 (map (visitNodeAndChildren_member tc) ms))
      | Inr (FunctionDeclaration mods nm ps ty) \<Rightarrow>
          Inr (FunctionDeclaration mods nm (map (visitParameter tc) ps)
                 (map_option (visitNodeAndChildren_type tc) ty))
      | Inr (VariableStatement mods ds) \<Rightarrow>
          Inr (VariableStatement mods
                 (map (\<lambda>d. (fst d, map_option (visitNodeAndChildren_type tc) (snd d))) ds))
      | Inr (TypeAliasDeclaration mods nm ty) \<Rightarrow>
          Inr (TypeAliasDeclaration mods nm (visitNodeAndChildren_type tc ty))
      | Inr (ModuleDeclaration mods nm body) \<Rightarrow>
          (case visitNodeAndChildren_statements tc body of
             Inl e \<Rightarrow> Inl e
           | Inr body' \<Rightarrow> Inr (ModuleDeclaration mods nm body'))
      | Inr (EnumDeclaration mods nm es) \<Rightarrow> Inr (EnumDeclaration mods nm es)
      | Inr (OtherStatement t) \<Rightarrow> Inr (OtherStatement t)
      | Inr (NotEmittedStatement s) \<Rightarrow> Inr (NotEmittedStatement s))"
| "visitNodeAndChildren_statements tc [] = Inr []"
| "visitNodeAndChildren_statements tc (s # ss) =
     (case visitNodeAndChildren_statement tc s of
        Inl e \<Rightarrow> Inl e
      | Inr s' \<Rightarrow>
          (case visitNodeAndChildren_statements tc ss of
             Inl e \<Rightarrow> Inl e
           | Inr ss' \<Rightarrow> Inr (s' # ss')))"
  by pat_completeness auto

termination
proof (relation "measure (case_sum (\<lambda>(tc, node). size node) (\<lambda>(tc, ss). size_list size ss))")
  fix tc node x mods nm body
  assume "visit_statement tc node = Inr x" and "x = ModuleDeclaration mods nm body"
  then show "(Inr (tc, body), Inl (tc, node))
      \<in> measure (case_sum (\<lambda>(tc, node). size node) (\<lambda>(tc, ss). size_list size ss))"
    by (auto dest!: visit_statement_module)
qed simp_all

declare visitNodeAndChildren_statement.simps [simp del]

definition dropPrivateApiTransformer :: "type_checker \<Rightarrow> source_file \<Rightarrow> error + source_file" where
  "dropPrivateApiTransformer tc sourceFile = visitNodeAndChildren_statements tc sourceFile"

text \<open>
  \<^verbatim>\<open>ts.transform\<close> returns the transformed file together with the diagnostics the
  transformer added through its context. \<^verbatim>\<open>dropPrivateApiTransformer\<close> takes only
  \<^verbatim>\<open>factory\<close> from the context and never adds a diagnostic.
\<close>

record transformation_result =
  transformed :: source_file
  diagnostics :: "string list"

definition transform :: "type_checker \<Rightarrow> source_file \<Rightarrow> error + transformation_result" where
  "transform tc sourceFile =
     (case dropPrivateApiTransformer tc sourceFile of
        Inl e \<Rightarrow> Inl e
      | Inr t \<Rightarrow> Inr \<lparr>transformed = t, diagnostics = []\<rparr>)"

chapter \<open>Notions and examples used in the statements\<close>

section \<open>Public names\<close>


section \<open>Errors\<close>

fun isClassOrInterface :: "statement \<Rightarrow> bool" where
  "isClassOrInterface (ClassDeclaration mods nm hcs ms) = True"
| "isClassOrInterface (InterfaceDeclaration mods nm hcs ms) = True"
| "isClassOrInterface s = False"

section \<open>Examples\<close>

text \<open>
  The example of the source's own comment:
  \<^verbatim>\<open>class PrivateFoo {}  export class PublicFoo extends PrivateFoo {}
  export function doFoo(foo: PrivateFoo);\<close>
  with \<^verbatim>\<open>PrivateFoo\<close> also reachable under the qualified name \<^verbatim>\<open>internal.PrivateFoo\<close>.
\<close>

definition localDecl :: "declaration_kind \<Rightarrow> symbol_declaration" where
  "localDecl k = \<lparr>decl_fileName = ''dist/index.d.ts'', decl_kind = k, decl_jsDocTags = []\<rparr>"

definition typeSymbol :: "string \<Rightarrow> declaration_kind \<Rightarrow> symbol" where
  "typeSymbol n k =
     \<lparr>sym_name = n, sym_declarations = Some [localDecl k], sym_documentationComment = [],
      sym_memberNodes = []\<rparr>"

definition extendsClause :: "string \<Rightarrow> heritage_clause" where
  "extendsClause n = HeritageClause ExtendsKeyword [ExpressionWithTypeArguments (Identifier n) []]"

definition fooChecker :: type_checker where
  "fooChecker =
     \<lparr>getSymbolAtLocation =
        (\<lambda>n. if n = Identifier ''PrivateFoo'' then Some (typeSymbol ''PrivateFoo'' (ClassDecl []))
             else if n = QualifiedName (Identifier ''internal'') ''PrivateFoo''
               then Some (typeSymbol ''PrivateFoo'' (ClassDecl []))
             else if n = Identifier ''PublicFoo''
               then Some (typeSymbol ''PublicFoo'' (ClassDecl [extendsClause ''PrivateFoo'']))
             else if n = Identifier ''doFoo'' then Some (typeSymbol ''doFoo'' OtherDecl)
             else None),
      getExportsOfModule =
        [typeSymbol ''PublicFoo'' (ClassDecl [extendsClause ''PrivateFoo'']),
         typeSymbol ''doFoo'' OtherDecl],
      getProperties = (\<lambda>ty. [])\<rparr>"

definition fooFile :: source_file where
  "fooFile =
     [ClassDeclaration [DeclareKeyword] (Some ''PrivateFoo'') [] [],
      ClassDeclaration [ExportKeyword, DeclareKeyword] (Some ''PublicFoo'')
        [extendsClause ''PrivateFoo''] [],
      FunctionDeclaration [ExportKeyword, DeclareKeyword] (Some ''doFoo'')
        [Parameter ''foo'' (Some (TypeReferenceNode (Identifier ''PrivateFoo'') []))] None]"

section \<open>Hidden constructors\<close>




section \<open>The export filter\<close>

fun isDeclarationNode :: "statement \<Rightarrow> bool" where
  "isDeclarationNode (OtherStatement t) = False"
| "isDeclarationNode (NotEmittedStatement s) = False"
| "isDeclarationNode s = True"

fun modifiersOf :: "statement \<Rightarrow> modifier list" where
  "modifiersOf (ClassDeclaration mods nm hcs ms) = mods"
| "modifiersOf (InterfaceDeclaration mods nm hcs ms) = mods"
| "modifiersOf (FunctionDeclaration mods nm ps ty) = mods"
| "modifiersOf (VariableStatement mods ds) = mods"
| "modifiersOf (TypeAliasDeclaration mods nm ty) = mods"
| "modifiersOf (ModuleDeclaration mods nm body) = mods"
| "modifiersOf (EnumDeclaration mods nm es) = mods"
| "modifiersOf (OtherStatement t) = []"
| "modifiersOf (NotEmittedStatement s) = []"

definition hasExportFlag :: "statement \<Rightarrow> bool" where
  "hasExportFlag s = hasExportModifier (modifiersOf s)"

definition placeholder :: "statement \<Rightarrow> statement" where
  "placeholder s = (if isDeclarationNode s then NotEmittedStatement s else s)"

definition hiddenOnlyFile :: source_file where
  "hiddenOnlyFile =
     [OtherStatement ''import a'',
      ClassDeclaration [DeclareKeyword] (Some ''PrivateFoo'') [] [],
      EnumDeclaration [DeclareKeyword] ''Level'' [''Low'', ''High'']]"

section \<open>Substituting references to hidden types\<close>










section \<open>Documentation of copied members\<close>





definition voidType :: type_node where "voidType = OtherTypeNode ''void'' []"










section \<open>Unresolved references\<close>

definition hiddenChecker :: type_checker where
  "hiddenChecker =
     \<lparr>getSymbolAtLocation =
        (\<lambda>n. if n = Identifier ''Hidden'' then Some (typeSymbol ''Hidden'' (InterfaceDecl []))
             else if n = Identifier ''f'' then Some (typeSymbol ''f'' OtherDecl)
             else None),
      getExportsOfModule = [typeSymbol ''f'' OtherDecl],
      getProperties = (\<lambda>ty. [])\<rparr>"

definition hiddenFile :: source_file where
  "hiddenFile =
     [InterfaceDeclaration [DeclareKeyword] ''Hidden'' [] [],
      FunctionDeclaration [ExportKeyword, DeclareKeyword] (Some ''f'')
        [Parameter ''x'' (Some (TypeReferenceNode (Identifier ''Hidden'') []))]
        (Some voidType)]"

section \<open>Members with hidden names\<close>

definition stringType :: type_node where "stringType = OtherTypeNode ''string'' []"

definition optionsInterface :: statement where
  "optionsInterface =
     InterfaceDeclaration [ExportKeyword, DeclareKeyword] ''Options'' []
       [PropertySignature [] (IdentifierName ''_internal'') (Some stringType),
        MethodSignature (IdentifierName ''_reset'') [] (Some voidType)]"

definition setterClass :: statement where
  "setterClass =
     ClassDeclaration [ExportKeyword, DeclareKeyword] (Some ''Settings'') []
       [GetAccessor [] (IdentifierName ''_host'') (Some stringType),
        SetAccessor [] (IdentifierName ''_host'') [Parameter ''value'' (Some stringType)]]"

section \<open>Heritage clauses of retained classes and interfaces\<close>












section \<open>Pruning a pruned tree\<close>












chapter \<open>Properties\<close>

section \<open>Public names\<close>


section \<open>Facts about the traversal\<close>

lemma vnc_type_ref:
  "visitNodeAndChildren_type tc (TypeReferenceNode n args) =
     (case extractExportedSymbol tc n of
        Some p \<Rightarrow> TypeReferenceNode (Identifier (sym_name p)) (map (visitNodeAndChildren_type tc) args)
      | None \<Rightarrow> TypeReferenceNode n (map (visitNodeAndChildren_type tc) args))"
  by (simp add: visitNodeAndChildren_type.simps split: option.splits)

lemma vnc_type_other:
  "visitNodeAndChildren_type tc (OtherTypeNode k ts) = OtherTypeNode k (map (visitNodeAndChildren_type tc) ts)"
  by (simp add: visitNodeAndChildren_type.simps)

lemma vnc_statement_class:
  "visitNodeAndChildren_statement tc (ClassDeclaration mods nm hcs ms) =
     (if \<not> hasExportModifier mods then Inr (NotEmittedStatement (ClassDeclaration mods nm hcs ms))
      else (case pruneClauses tc (ClassDeclaration mods nm hcs ms) hcs [] [] of
              Inl e \<Rightarrow> Inl e
            | Inr (pruned, additional) \<Rightarrow>
                Inr (ClassDeclaration mods nm (map (visitNodeAndChildren_heritage tc) pruned)
                       (map (visitNodeAndChildren_member tc) (ms @ additional)))))"
  by (simp add: visitNodeAndChildren_statement.simps prunePrivateImports_def
      split: sum.splits prod.splits)

lemma vnc_statement_interface:
  "visitNodeAndChildren_statement tc (InterfaceDeclaration mods nm hcs ms) =
     (if \<not> hasExportModifier mods
      then Inr (NotEmittedStatement (InterfaceDeclaration mods nm hcs ms))
      else (case pruneClauses tc (InterfaceDeclaration mods nm hcs ms) hcs [] [] of
              Inl e \<Rightarrow> Inl e
            | Inr (pruned, additional) \<Rightarrow>
                Inr (InterfaceDeclaration mods nm (map (visitNodeAndChildren_heritage tc) pruned)
                       (map (visitNodeAndChildren_member tc) (ms @ additional)))))"
  by (simp add: visitNodeAndChildren_statement.simps prunePrivateImports_def
      split: sum.splits prod.splits)

lemma vnc_statement_function:
  "visitNodeAndChildren_statement tc (FunctionDeclaration mods nm ps ty) =
     (if \<not> hasExportModifier mods then Inr (NotEmittedStatement (FunctionDeclaration mods nm ps ty))
      else Inr (FunctionDeclaration mods nm (map (visitParameter tc) ps)
                 (map_option (visitNodeAndChildren_type tc) ty)))"
  by (simp add: visitNodeAndChildren_statement.simps)

lemma vnc_statement_variable:
  "visitNodeAndChildren_statement tc (VariableStatement mods ds) =
     (if \<not> hasExportModifier mods then Inr (NotEmittedStatement (VariableStatement mods ds))
      else Inr (VariableStatement mods
                 (map (\<lambda>d. (fst d, map_option (visitNodeAndChildren_type tc) (snd d))) ds)))"
  by (simp add: visitNodeAndChildren_statement.simps)

lemma vnc_statement_alias:
  "visitNodeAndChildren_statement tc (TypeAliasDeclaration mods nm ty) =
     (if \<not> hasExportModifier mods then Inr (NotEmittedStatement (TypeAliasDeclaration mods nm ty))
      else Inr (TypeAliasDeclaration mods nm (visitNodeAndChildren_type tc ty)))"
  by (simp add: visitNodeAndChildren_statement.simps)

lemma vnc_statement_module:
  "visitNodeAndChildren_statement tc (ModuleDeclaration mods nm body) =
     (if \<not> hasExportModifier mods then Inr (NotEmittedStatement (ModuleDeclaration mods nm body))
      else (case visitNodeAndChildren_statements tc body of
              Inl e \<Rightarrow> Inl e
            | Inr body' \<Rightarrow> Inr (ModuleDeclaration mods nm body')))"
  by (simp add: visitNodeAndChildren_statement.simps)

lemma vnc_statement_enum:
  "visitNodeAndChildren_statement tc (EnumDeclaration mods nm es) =
     (if \<not> hasExportModifier mods then Inr (NotEmittedStatement (EnumDeclaration mods nm es))
      else Inr (EnumDeclaration mods nm es))"
  by (simp add: visitNodeAndChildren_statement.simps)

lemma vnc_statement_other:
  "visitNodeAndChildren_statement tc (OtherStatement t) = Inr (OtherStatement t)"
  "visitNodeAndChildren_statement tc (NotEmittedStatement s) = Inr (NotEmittedStatement s)"
  by (simp_all add: visitNodeAndChildren_statement.simps)

lemmas vnc_statement_simps =
  vnc_statement_class vnc_statement_interface vnc_statement_function vnc_statement_variable
  vnc_statement_alias vnc_statement_module vnc_statement_enum vnc_statement_other



section \<open>Errors\<close>

lemma overloadCount_error: "overloadCount nm nodes = Inl e \<Longrightarrow> e = TypeError"
  by (induction nodes arbitrary: e) (auto split: if_splits sum.splits, (case_tac a; simp)+)

lemma nameEscapedText_error: "nameEscapedText m = Inl e \<Longrightarrow> e = TypeError"
  by (cases m) auto

lemma extractJSDocComment_error: "extractJSDocComment s acc = Inl e \<Longrightarrow> e = TypeError"
  by (auto simp: extractJSDocComment_def Let_def split: sum.splits option.splits if_splits
      dest: overloadCount_error)

lemma addClassElements_error: "addClassElements syms acc nodes = Inl e \<Longrightarrow> e = TypeError"
  by (induction syms acc nodes rule: addClassElements.induct)
    (auto split: sum.splits option.splits dest: nameEscapedText_error extractJSDocComment_error)

lemma convertProperties_error:
  "convertPropertiesForEnclosingClass syms node = Inl e \<Longrightarrow> e = TypeError"
  by (auto simp: convertPropertiesForEnclosingClass_def dest: addClassElements_error)

lemma pruneTypes_error: "pruneTypes tc node tys ex add = Inl e \<Longrightarrow> e = TypeError"
  by (induction tc node tys ex add rule: pruneTypes.induct)
    (auto split: if_splits sum.splits dest: convertProperties_error)

lemma pruneClauses_error: "pruneClauses tc node hcs pr add = Inl e \<Longrightarrow> e = TypeError"
  by (induction tc node hcs pr add rule: pruneClauses.induct)
    (auto split: if_splits sum.splits prod.splits dest: pruneTypes_error)

lemma prunePrivateImports_error:
  "prunePrivateImports tc node = Inl OnlyClassesOrInterfaces \<longleftrightarrow> \<not> isClassOrInterface node"
  by (cases node)
    (auto simp: prunePrivateImports_def split: sum.splits prod.splits dest: pruneClauses_error)

lemma visit_statement_error:
  "visit_statement tc node \<noteq> Inl OnlyClassesOrInterfaces"
  by (cases node) (auto simp: prunePrivateImports_error)

lemma vnc_statement_error:
  "visitNodeAndChildren_statement tc node \<noteq> Inl OnlyClassesOrInterfaces"
  "visitNodeAndChildren_statements tc ss \<noteq> Inl OnlyClassesOrInterfaces"
proof (induction tc node and tc ss rule: visitNodeAndChildren_statement_visitNodeAndChildren_statements.induct)
  case (1 tc node)
  then show ?case
    using visit_statement_error[of tc node]
    by (subst visitNodeAndChildren_statement.simps) (auto split: sum.splits statement.splits)
next
  case (2 tc)
  then show ?case by simp
next
  case (3 tc s ss)
  then show ?case by (auto split: sum.splits)
qed



section \<open>Examples\<close>

lemma typeSymbol_sel:
  "sym_name (typeSymbol n k) = n"
  "sym_declarations (typeSymbol n k) = Some [localDecl k]"
  "sym_documentationComment (typeSymbol n k) = []"
  "sym_memberNodes (typeSymbol n k) = []"
  by (simp_all add: typeSymbol_def)

lemma localDecl_sel:
  "decl_fileName (localDecl k) = ''dist/index.d.ts''"
  "decl_kind (localDecl k) = k"
  "decl_jsDocTags (localDecl k) = []"
  by (simp_all add: localDecl_def)

lemma local_file_not_lib: "\<not> str_includes ''dist/index.d.ts'' ''typescript/lib''"
  by code_simp

lemma fooChecker_sel:
  "getSymbolAtLocation fooChecker (Identifier ''PrivateFoo'') =
     Some (typeSymbol ''PrivateFoo'' (ClassDecl []))"
  "getSymbolAtLocation fooChecker (QualifiedName (Identifier ''internal'') ''PrivateFoo'') =
     Some (typeSymbol ''PrivateFoo'' (ClassDecl []))"
  "getSymbolAtLocation fooChecker (Identifier ''PublicFoo'') =
     Some (typeSymbol ''PublicFoo'' (ClassDecl [extendsClause ''PrivateFoo'']))"
  "getExportsOfModule fooChecker =
     [typeSymbol ''PublicFoo'' (ClassDecl [extendsClause ''PrivateFoo'']),
      typeSymbol ''doFoo'' OtherDecl]"
  "getProperties fooChecker ty = []"
  by (simp_all add: fooChecker_def)

lemma isExported_foo:
  "\<not> isExported fooChecker ''PrivateFoo''" "isExported fooChecker ''PublicFoo''"
  by (simp_all add: isExported_def declarationsAt_def fooChecker_sel typeSymbol_sel
      localDecl_sel local_file_not_lib del: str_includes.simps)

lemma extract_foo:
  "extractExportedSymbol fooChecker (Identifier ''PrivateFoo'') =
     Some (typeSymbol ''PublicFoo'' (ClassDecl [extendsClause ''PrivateFoo'']))"
  by (simp add: isExported_foo fooChecker_sel typeSymbol_sel localDecl_sel extendsClause_def)

lemma foo_run:
  "dropPrivateApiTransformer fooChecker fooFile =
     Inr [NotEmittedStatement (ClassDeclaration [DeclareKeyword] (Some ''PrivateFoo'') [] []),
      ClassDeclaration [ExportKeyword, DeclareKeyword] (Some ''PublicFoo'') [] [],
      FunctionDeclaration [ExportKeyword, DeclareKeyword] (Some ''doFoo'')
        [Parameter ''foo'' (Some (TypeReferenceNode (Identifier ''PublicFoo'') []))] None]"
  by (simp add: dropPrivateApiTransformer_def fooFile_def vnc_statement_simps hasExportModifier_def
      extendsClause_def isExported_foo vnc_type_ref extract_foo
      convertPropertiesForEnclosingClass_def createMissingMemberNodes_def fooChecker_sel
      typeSymbol_sel del: extractExportedSymbol.simps)

section \<open>The error of the heritage step\<close>

text \<open>
  C9. \<^verbatim>\<open>prunePrivateImports\<close> fails with ``Only classes or interfaces are supported''
  exactly on a node that is neither a class nor an interface declaration. \<^verbatim>\<open>visit\<close>
  calls it on class and interface declarations only, so neither \<^verbatim>\<open>visit\<close> nor the whole
  transformer ever fails with this error, whatever the tree and the type checker.
\<close>

theorem only_classes_error_unreachable:
  "(prunePrivateImports tc node = Inl OnlyClassesOrInterfaces \<longleftrightarrow> \<not> isClassOrInterface node)
   \<and> visit_statement tc node \<noteq> Inl OnlyClassesOrInterfaces
   \<and> visitNodeAndChildren_statement tc node \<noteq> Inl OnlyClassesOrInterfaces
   \<and> dropPrivateApiTransformer tc sourceFile \<noteq> Inl OnlyClassesOrInterfaces"
  by (simp add: prunePrivateImports_error visit_statement_error vnc_statement_error
      dropPrivateApiTransformer_def)

theorem only_classes_error_unreachable_witness:
  "prunePrivateImports fooChecker (EnumDeclaration [ExportKeyword] ''E'' []) =
     Inl OnlyClassesOrInterfaces
   \<and> prunePrivateImports fooChecker
        (ClassDeclaration [ExportKeyword, DeclareKeyword] (Some ''PublicFoo'')
           [extendsClause ''PrivateFoo''] []) \<noteq> Inl OnlyClassesOrInterfaces
   \<and> dropPrivateApiTransformer fooChecker fooFile \<noteq> Inl OnlyClassesOrInterfaces"
  using only_classes_error_unreachable [of fooChecker "EnumDeclaration [ExportKeyword] ''E'' []" fooFile]
    only_classes_error_unreachable [of fooChecker
      "ClassDeclaration [ExportKeyword, DeclareKeyword] (Some ''PublicFoo'')
         [extendsClause ''PrivateFoo''] []" fooFile]
  by simp

section \<open>Qualified type names\<close>

text \<open>
  C10. The substitute search returns nothing for a type name that is not a single
  identifier: a type reference with a qualified name keeps its name, in \<^verbatim>\<open>visit\<close> and
  in the whole traversal (which still visits its type arguments), whatever the type
  checker says about the name. The witness is a qualified reference to the hidden
  \<^verbatim>\<open>PrivateFoo\<close>, for which the search on the plain identifier finds \<^verbatim>\<open>PublicFoo\<close>.
\<close>

theorem qualified_reference_unchanged:
  "extractExportedSymbol tc (QualifiedName q r) = None
   \<and> visit_type tc (TypeReferenceNode (QualifiedName q r) args) =
       TypeReferenceNode (QualifiedName q r) args
   \<and> visitNodeAndChildren_type tc (TypeReferenceNode (QualifiedName q r) args) =
       TypeReferenceNode (QualifiedName q r) (map (visitNodeAndChildren_type tc) args)"
  by (simp add: vnc_type_ref)

theorem qualified_reference_unchanged_witness:
  "getSymbolAtLocation fooChecker (QualifiedName (Identifier ''internal'') ''PrivateFoo'') =
     getSymbolAtLocation fooChecker (Identifier ''PrivateFoo'')
   \<and> \<not> isExported fooChecker ''PrivateFoo''
   \<and> visitNodeAndChildren_type fooChecker (TypeReferenceNode (Identifier ''PrivateFoo'') []) =
       TypeReferenceNode (Identifier ''PublicFoo'') []
   \<and> visitNodeAndChildren_type fooChecker
        (TypeReferenceNode (QualifiedName (Identifier ''internal'') ''PrivateFoo'') []) =
       TypeReferenceNode (QualifiedName (Identifier ''internal'') ''PrivateFoo'') []"
  using qualified_reference_unchanged [of fooChecker "Identifier ''internal''" "''PrivateFoo''" "[]"]
  by (simp add: fooChecker_sel isExported_foo vnc_type_ref extract_foo typeSymbol_sel
      del: extractExportedSymbol.simps)

section \<open>Hidden constructors\<close>





section \<open>The export filter\<close>

lemma vnc_statement_not_exported:
  "\<not> hasExportFlag s \<Longrightarrow> visitNodeAndChildren_statement tc s = Inr (placeholder s)"
  by (cases s) (simp_all add: hasExportFlag_def placeholder_def vnc_statement_simps)

lemma vnc_statement_retained:
  "visitNodeAndChildren_statement tc s = Inr s' \<Longrightarrow> isDeclarationNode s' \<Longrightarrow>
   hasExportFlag s' \<and> hasExportFlag s \<and> isDeclarationNode s"
  by (cases s)
    (auto simp: hasExportFlag_def vnc_statement_simps split: if_splits sum.splits prod.splits)

lemma vnc_statements_all2:
  "visitNodeAndChildren_statements tc ss = Inr out \<Longrightarrow>
   list_all2 (\<lambda>s s'. visitNodeAndChildren_statement tc s = Inr s') ss out"
  by (induction ss arbitrary: out) (auto split: sum.splits)

lemma vnc_statements_no_exports:
  "list_all (\<lambda>s. \<not> hasExportFlag s) ss \<Longrightarrow>
   visitNodeAndChildren_statements tc ss = Inr (map placeholder ss)"
  by (induction ss) (simp_all add: vnc_statement_not_exported)

lemma fooFile_flags:
  "isDeclarationNode (fooFile ! 0)" "\<not> hasExportFlag (fooFile ! 0)" "length fooFile = 3"
  by (simp_all add: fooFile_def hasExportFlag_def hasExportModifier_def)

text \<open>
  C4. A class, interface, function, variable statement, type alias, namespace or enum
  without the \<^verbatim>\<open>export\<close> modifier is always turned into the placeholder
  \<^verbatim>\<open>createNotEmittedStatement(node)\<close>, without error. When the transformer returns,
  its output has as many top-level statements as the input. Where the input has a class, interface, function, variable statement, type
  alias, namespace or enum without the \<^verbatim>\<open>export\<close> modifier, the output has the
  placeholder \<^verbatim>\<open>createNotEmittedStatement(node)\<close> at the same position, and every
  top-level declaration of these kinds in the output carries the \<^verbatim>\<open>export\<close> modifier. On
  an input in which no statement has the modifier the transformer returns (no error):
  every declaration is a placeholder and the other statements are as they were.
\<close>

theorem export_filter:
  "(dropPrivateApiTransformer tc sourceFile = Inr out \<longrightarrow>
      length out = length sourceFile \<and>
      (\<forall>i < length sourceFile.
         (isDeclarationNode (sourceFile ! i) \<and> \<not> hasExportFlag (sourceFile ! i) \<longrightarrow>
            out ! i = NotEmittedStatement (sourceFile ! i)) \<and>
         (isDeclarationNode (out ! i) \<longrightarrow>
            hasExportFlag (out ! i) \<and> hasExportFlag (sourceFile ! i))))
   \<and> (list_all (\<lambda>s. \<not> hasExportFlag s) sourceFile \<longrightarrow>
        dropPrivateApiTransformer tc sourceFile = Inr (map placeholder sourceFile)
        \<and> list_all (\<lambda>s. \<not> isDeclarationNode s) (map placeholder sourceFile))
   \<and> (isDeclarationNode s \<and> \<not> hasExportFlag s \<longrightarrow>
        visitNodeAndChildren_statement tc s = Inr (NotEmittedStatement s))"
proof (intro conjI impI allI)
  assume r: "dropPrivateApiTransformer tc sourceFile = Inr out"
  then have a2: "list_all2 (\<lambda>s s'. visitNodeAndChildren_statement tc s = Inr s') sourceFile out"
    by (simp add: dropPrivateApiTransformer_def vnc_statements_all2)
  then show len: "length out = length sourceFile"
    by (simp add: list_all2_lengthD)
  fix i assume i: "i < length sourceFile"
  with a2 have step: "visitNodeAndChildren_statement tc (sourceFile ! i) = Inr (out ! i)"
    using list_all2_nthD [of _ sourceFile out i] by simp
  { assume "isDeclarationNode (sourceFile ! i) \<and> \<not> hasExportFlag (sourceFile ! i)"
    with step show "out ! i = NotEmittedStatement (sourceFile ! i)"
      by (simp add: vnc_statement_not_exported placeholder_def) }
  { assume d: "isDeclarationNode (out ! i)"
    from vnc_statement_retained [OF step d]
    show "hasExportFlag (out ! i)" and "hasExportFlag (sourceFile ! i)" by simp_all }
next
  assume "list_all (\<lambda>s. \<not> hasExportFlag s) sourceFile"
  then show "dropPrivateApiTransformer tc sourceFile = Inr (map placeholder sourceFile)"
    by (simp add: dropPrivateApiTransformer_def vnc_statements_no_exports)
next
  show "list_all (\<lambda>s. \<not> isDeclarationNode s) (map placeholder sourceFile)"
    by (induction sourceFile) (simp_all add: placeholder_def)
next
  assume "isDeclarationNode s \<and> \<not> hasExportFlag s"
  then show "visitNodeAndChildren_statement tc s = Inr (NotEmittedStatement s)"
    by (simp add: vnc_statement_not_exported placeholder_def)
qed

theorem export_filter_witness:
  "dropPrivateApiTransformer fooChecker fooFile =
     Inr [NotEmittedStatement (ClassDeclaration [DeclareKeyword] (Some ''PrivateFoo'') [] []),
      ClassDeclaration [ExportKeyword, DeclareKeyword] (Some ''PublicFoo'') [] [],
      FunctionDeclaration [ExportKeyword, DeclareKeyword] (Some ''doFoo'')
        [Parameter ''foo'' (Some (TypeReferenceNode (Identifier ''PublicFoo'') []))] None]
   \<and> isDeclarationNode (fooFile ! 0) \<and> \<not> hasExportFlag (fooFile ! 0)
   \<and> list_all (\<lambda>s. \<not> hasExportFlag s) hiddenOnlyFile
   \<and> dropPrivateApiTransformer fooChecker hiddenOnlyFile =
       Inr [OtherStatement ''import a'',
            NotEmittedStatement (ClassDeclaration [DeclareKeyword] (Some ''PrivateFoo'') [] []),
            NotEmittedStatement (EnumDeclaration [DeclareKeyword] ''Level'' [''Low'', ''High''])]"
proof -
  have h: "list_all (\<lambda>s. \<not> hasExportFlag s) hiddenOnlyFile"
    by (simp add: hiddenOnlyFile_def hasExportFlag_def hasExportModifier_def)
  from export_filter [of fooChecker hiddenOnlyFile] h
  have "dropPrivateApiTransformer fooChecker hiddenOnlyFile = Inr (map placeholder hiddenOnlyFile)"
    by blast
  then have r: "dropPrivateApiTransformer fooChecker hiddenOnlyFile =
       Inr [OtherStatement ''import a'',
            NotEmittedStatement (ClassDeclaration [DeclareKeyword] (Some ''PrivateFoo'') [] []),
            NotEmittedStatement (EnumDeclaration [DeclareKeyword] ''Level'' [''Low'', ''High''])]"
    by (simp add: hiddenOnlyFile_def placeholder_def)
  from export_filter [of fooChecker fooFile] foo_run
  have "isDeclarationNode (fooFile ! 0) \<and> \<not> hasExportFlag (fooFile ! 0) \<longrightarrow>
        [NotEmittedStatement (ClassDeclaration [DeclareKeyword] (Some ''PrivateFoo'') [] []),
      ClassDeclaration [ExportKeyword, DeclareKeyword] (Some ''PublicFoo'') [] [],
      FunctionDeclaration [ExportKeyword, DeclareKeyword] (Some ''doFoo'')
        [Parameter ''foo'' (Some (TypeReferenceNode (Identifier ''PublicFoo'') []))] None] ! 0
        = NotEmittedStatement (fooFile ! 0)"
    using fooFile_flags(3) by (metis zero_less_numeral)
  with foo_run h r fooFile_flags show ?thesis by simp
qed

section \<open>Substituting references to hidden types\<close>

















section \<open>Documentation of copied members\<close>






lemma transform_diagnostics: "transform tc sourceFile = Inr r \<Longrightarrow> diagnostics r = []"
  by (auto simp: transform_def split: sum.splits)
















section \<open>Unresolved references\<close>

lemma hiddenChecker_sel:
  "getSymbolAtLocation hiddenChecker (Identifier ''Hidden'') =
     Some (typeSymbol ''Hidden'' (InterfaceDecl []))"
  "getExportsOfModule hiddenChecker = [typeSymbol ''f'' OtherDecl]"
  by (simp_all add: hiddenChecker_def)

lemma isExported_hidden: "\<not> isExported hiddenChecker ''Hidden''"
  by (simp add: isExported_def declarationsAt_def hiddenChecker_sel typeSymbol_sel
      localDecl_sel local_file_not_lib del: str_includes.simps)

lemma extract_hidden: "extractExportedSymbol hiddenChecker (Identifier ''Hidden'') = None"
  by (simp add: isExported_hidden hiddenChecker_sel typeSymbol_sel localDecl_sel)

lemma hidden_run:
  "dropPrivateApiTransformer hiddenChecker hiddenFile =
     Inr [NotEmittedStatement (InterfaceDeclaration [DeclareKeyword] ''Hidden'' [] []),
          FunctionDeclaration [ExportKeyword, DeclareKeyword] (Some ''f'')
            [Parameter ''x'' (Some (TypeReferenceNode (Identifier ''Hidden'') []))]
            (Some voidType)]"
  by (simp add: dropPrivateApiTransformer_def hiddenFile_def vnc_statement_simps
      hasExportModifier_def vnc_type_ref extract_hidden voidType_def vnc_type_other
      del: extractExportedSymbol.simps)

text \<open>
  C1 (as the code has it). A type reference for which the substitute search returns
  nothing is returned by \<^verbatim>\<open>visit\<close> as it is, and the traversal keeps its name; visiting
  a function, a variable statement or a type alias never fails, whatever references
  they hold; and the result of the transformation carries no diagnostic at all: the
  tool has no channel on which an unresolved reference could be reported.
\<close>

theorem unresolved_reference_kept:
  "(extractExportedSymbol tc typeName = None \<longrightarrow>
      visit_type tc (TypeReferenceNode typeName args) = TypeReferenceNode typeName args \<and>
      visitNodeAndChildren_type tc (TypeReferenceNode typeName args) =
        TypeReferenceNode typeName (map (visitNodeAndChildren_type tc) args))
   \<and> visitNodeAndChildren_statement tc (FunctionDeclaration mods nm ps ty) \<noteq> Inl e
   \<and> visitNodeAndChildren_statement tc (VariableStatement mods ds) \<noteq> Inl e
   \<and> visitNodeAndChildren_statement tc (TypeAliasDeclaration mods anm aty) \<noteq> Inl e
   \<and> (transform tc sourceFile = Inr r \<longrightarrow> diagnostics r = [])"
  by (simp add: vnc_type_ref vnc_statement_simps transform_diagnostics
      del: extractExportedSymbol.simps)

theorem unresolved_reference_kept_witness:
  "extractExportedSymbol hiddenChecker (Identifier ''Hidden'') = None
   \<and> visitNodeAndChildren_type hiddenChecker (TypeReferenceNode (Identifier ''Hidden'') []) =
       TypeReferenceNode (Identifier ''Hidden'') []
   \<and> transform hiddenChecker hiddenFile =
       Inr \<lparr>transformed =
              [NotEmittedStatement (InterfaceDeclaration [DeclareKeyword] ''Hidden'' [] []),
               FunctionDeclaration [ExportKeyword, DeclareKeyword] (Some ''f'')
                 [Parameter ''x'' (Some (TypeReferenceNode (Identifier ''Hidden'') []))]
                 (Some voidType)],
            diagnostics = []\<rparr>"
proof -
  have t: "transform hiddenChecker hiddenFile =
       Inr \<lparr>transformed =
              [NotEmittedStatement (InterfaceDeclaration [DeclareKeyword] ''Hidden'' [] []),
               FunctionDeclaration [ExportKeyword, DeclareKeyword] (Some ''f'')
                 [Parameter ''x'' (Some (TypeReferenceNode (Identifier ''Hidden'') []))]
                 (Some voidType)],
            diagnostics = []\<rparr>"
    by (simp add: transform_def hidden_run)
  from unresolved_reference_kept [of hiddenChecker "Identifier ''Hidden''" "[]" _ _ _ _ _ _ _ _
      hiddenFile] extract_hidden t
  show ?thesis by (simp del: extractExportedSymbol.simps visit_type.simps)
qed

text \<open>
  The claim as stated fails on the spec's own scenario, a hidden interface used as the
  parameter type of an exported function with no public type related to it: the
  reference stays and the list of diagnostics is empty.
\<close>

theorem unresolved_reference_no_diagnostic:
  "\<not> isExported hiddenChecker ''Hidden''
   \<and> extractExportedSymbol hiddenChecker (Identifier ''Hidden'') = None
   \<and> transform hiddenChecker hiddenFile =
       Inr \<lparr>transformed =
              [NotEmittedStatement (InterfaceDeclaration [DeclareKeyword] ''Hidden'' [] []),
               FunctionDeclaration [ExportKeyword, DeclareKeyword] (Some ''f'')
                 [Parameter ''x'' (Some (TypeReferenceNode (Identifier ''Hidden'') []))]
                 (Some voidType)],
            diagnostics = []\<rparr>"
  by (simp add: transform_def hidden_run isExported_hidden extract_hidden
      del: extractExportedSymbol.simps)

section \<open>Members with hidden names\<close>

text \<open>
  C5. The documentation of \<^verbatim>\<open>pruneDts\<close> and the comment in \<^verbatim>\<open>visit\<close> say that the
  underscore-prefixed members of class and interface types are stripped. \<^verbatim>\<open>visit\<close> tests
  the prefix on property declarations, method declarations and get accessors only: the
  members of an interface are signatures, and a set accessor is none of the three. So
  the members \<^verbatim>\<open>_internal\<close> and \<^verbatim>\<open>_reset\<close> of
  \<^verbatim>\<open>export declare interface Options { _internal: string; _reset(): void; }\<close>
  and the setter of
  \<^verbatim>\<open>export declare class Settings { get _host(): string; set _host(value: string); }\<close>
  are still there after pruning.
\<close>

theorem hidden_members_kept:
  "hasPrivatePrefix (IdentifierName ''_internal'') \<and> hasPrivatePrefix (IdentifierName ''_reset'')
   \<and> hasPrivatePrefix (IdentifierName ''_host'')
   \<and> visitNodeAndChildren_statement hiddenChecker optionsInterface = Inr optionsInterface
   \<and> visitNodeAndChildren_statement hiddenChecker setterClass =
       Inr (ClassDeclaration [ExportKeyword, DeclareKeyword] (Some ''Settings'') []
         [NotEmittedMember (GetAccessor [] (IdentifierName ''_host'') (Some stringType)),
          SetAccessor [] (IdentifierName ''_host'') [Parameter ''value'' (Some stringType)]])"
  by (simp add: optionsInterface_def setterClass_def vnc_statement_simps hasExportModifier_def
      visitNodeAndChildren_member_def startsWith_def stringType_def voidType_def vnc_type_other)

section \<open>Heritage clauses of retained classes and interfaces\<close>
















section \<open>Pruning a pruned tree\<close>

























end
